theory Spec2Isabelle
  imports Main "HOL-Library.Word" "HOL-Library.Sublist"
begin

section \<open>Upload sessions (model/upload\_session.go)\<close>

subsection \<open>Data model\<close>

text \<open>
  Go's \<open>int64\<close> is a 64-bit word read in two's complement (\<open>sint\<close>); a Go
  \<open>string\<close> is a sequence of bytes, which is what \<open>string\<close> (a list of 8-bit
  \<open>char\<close>) is here.
\<close>

type_synonym int64 = "64 word"

text \<open>\<open>type UploadType string\<close> with its two constants.\<close>

type_synonym UploadType = string

definition UploadTypeAttachment :: UploadType where
  "UploadTypeAttachment = ''attachment''"

definition UploadTypeImport :: UploadType where
  "UploadTypeImport = ''import''"

text \<open>
  \<open>struct UploadSession\<close>, field by field. The field \<open>Id\<close> is written \<open>Id_us\<close>
  because \<open>Id\<close> is the identity relation of HOL.
\<close>

record UploadSession =
  Id_us :: string
  Type :: UploadType
  CreateAt :: int64
  UserId :: string
  ChannelId :: string
  Filename :: string
  Path :: string
  FileSize :: int64
  FileOffset :: int64

text \<open>
  Modelled from the spec: \<open>AppError\<close> and \<open>NewAppError\<close> are declared outside
  upload\_session.go. A session validity error carries the operation name that detected
  it (\<open>Where\<close>), the machine-readable localisation code (\<open>AppErrorId\<close>, the field
  \<open>Id\<close> of the Go struct), the contextual detail (\<open>DetailedError\<close>) and the HTTP
  status (\<open>StatusCode\<close>). \<open>NewAppError where id params details status\<close> stores its
  arguments; every call in this file passes \<open>nil\<close> for \<open>params\<close>, so that
  argument is left out.
\<close>

record AppError =
  Where :: string
  AppErrorId :: string
  DetailedError :: string
  StatusCode :: nat

definition NewAppError :: "string \<Rightarrow> string \<Rightarrow> string \<Rightarrow> nat \<Rightarrow> AppError" where
  "NewAppError wh i details status =
     \<lparr>Where = wh, AppErrorId = i, DetailedError = details, StatusCode = status\<rparr>"

text \<open>\<open>http.StatusBadRequest\<close>.\<close>

definition StatusBadRequest :: nat where
  "StatusBadRequest = 400"

subsection \<open>UploadType.IsValid\<close>

text \<open>
  The Go \<open>error\<close> made by \<open>fmt.Errorf\<close> is its message; \<open>%s\<close> of a value whose
  kind is string prints its bytes unchanged. \<open>None\<close> is \<open>nil\<close>.
\<close>

datatype error = Errorf (Error: string)

definition UploadType_IsValid :: "UploadType \<Rightarrow> error option" where
  "UploadType_IsValid t =
     (if t = UploadTypeAttachment then None
      else if t = UploadTypeImport then None
      else Some (Errorf (''invalid UploadType '' @ t)))"

subsection \<open>UploadSession.IsValid\<close>

text \<open>
  \<open>IsValidId\<close> is declared outside upload\_session.go; the validator takes it as its
  first argument. The checks are in the order of the source, each returning at once.
\<close>

definition IsValid :: "(string \<Rightarrow> bool) \<Rightarrow> UploadSession \<Rightarrow> AppError option" where
  "IsValid IsValidId us =
     (if \<not> IsValidId (Id_us us) then
        Some (NewAppError ''UploadSession.IsValid''
          ''model.upload_session.is_valid.id.app_error'' '''' StatusBadRequest)
      else case UploadType_IsValid (Type us) of
        Some err \<Rightarrow>
          Some (NewAppError ''UploadSession.IsValid''
            ''model.upload_session.is_valid.type.app_error'' (Error err) StatusBadRequest)
      | None \<Rightarrow>
      if \<not> IsValidId (UserId us) then
        Some (NewAppError ''UploadSession.IsValid''
          ''model.upload_session.is_valid.user_id.app_error'' (''id='' @ Id_us us)
          StatusBadRequest)
      else if Type us = UploadTypeAttachment \<and> \<not> IsValidId (ChannelId us) then
        Some (NewAppError ''UploadSession.IsValid''
          ''model.upload_session.is_valid.channel_id.app_error'' (''id='' @ Id_us us)
          StatusBadRequest)
      else if CreateAt us = 0 then
        Some (NewAppError ''UploadSession.IsValid''
          ''model.upload_session.is_valid.create_at.app_error'' (''id='' @ Id_us us)
          StatusBadRequest)
      else if Filename us = '''' then
        Some (NewAppError ''UploadSession.IsValid''
          ''model.upload_session.is_valid.filename.app_error'' (''id='' @ Id_us us)
          StatusBadRequest)
      else if sint (FileSize us) \<le> 0 then
        Some (NewAppError ''UploadSession.IsValid''
          ''model.upload_session.is_valid.file_size.app_error'' (''id='' @ Id_us us)
          StatusBadRequest)
      else if sint (FileOffset us) < 0 \<or> sint (FileOffset us) > sint (FileSize us) then
        Some (NewAppError ''UploadSession.IsValid''
          ''model.upload_session.is_valid.file_offset.app_error'' (''id='' @ Id_us us)
          StatusBadRequest)
      else if Path us = '''' then
        Some (NewAppError ''UploadSession.IsValid''
          ''model.upload_session.is_valid.path.app_error'' (''id='' @ Id_us us)
          StatusBadRequest)
      else None)"

subsection \<open>UploadSession.PreSave\<close>

text \<open>
  \<open>NewId\<close> and \<open>GetMillis\<close> are declared outside upload\_session.go. \<open>PreSave\<close>
  takes what they return at this call as \<open>new_id\<close> and \<open>millis\<close>; the method
  updates the session behind its pointer, the model returns the updated session.
\<close>

definition PreSave :: "string \<Rightarrow> int64 \<Rightarrow> UploadSession \<Rightarrow> UploadSession" where
  "PreSave new_id millis us =
     (let us1 = (if Id_us us = '''' then us\<lparr>Id_us := new_id\<rparr> else us);
          us2 = (if CreateAt us1 = 0 then us1\<lparr>CreateAt := millis\<rparr> else us1)
      in us2)"

subsection \<open>The invariants of the data model, as the specification lists them\<close>

text \<open>
  The nine invariants of the specification's data model, in its words: Id is a
  well-formed identifier; Type is one of the two variants; UserId is a well-formed
  identifier; if Type is attachment, ChannelId is a well-formed identifier; CreateAt is
  nonzero; Filename is non-empty; FileSize is positive; FileOffset lies between 0 and
  FileSize; Path is non-empty.
\<close>

definition spec_invariants :: "(string \<Rightarrow> bool) \<Rightarrow> UploadSession \<Rightarrow> bool" where
  "spec_invariants IsValidId us \<longleftrightarrow>
     IsValidId (Id_us us) \<and>
     (Type us = ''attachment'' \<or> Type us = ''import'') \<and>
     IsValidId (UserId us) \<and>
     (Type us = ''attachment'' \<longrightarrow> IsValidId (ChannelId us)) \<and>
     CreateAt us \<noteq> 0 \<and>
     Filename us \<noteq> '''' \<and>
     0 < sint (FileSize us) \<and>
     (0 \<le> sint (FileOffset us) \<and> sint (FileOffset us) \<le> sint (FileSize us)) \<and>
     Path us \<noteq> ''''"

subsection \<open>An identifier check to evaluate with\<close>

text \<open>
  The validator is evaluated at concrete sessions with the check below: 26 bytes, each an
  ASCII digit or letter, the shape of the identifiers the server generates.
\<close>

definition IsValidId_alnum26 :: "string \<Rightarrow> bool" where
  "IsValidId_alnum26 s \<longleftrightarrow>
     length s = 26 \<and>
     list_all (\<lambda>c. (48 \<le> (of_char c :: nat) \<and> (of_char c :: nat) \<le> 57) \<or>
                    (65 \<le> (of_char c :: nat) \<and> (of_char c :: nat) \<le> 90) \<or>
                    (97 \<le> (of_char c :: nat) \<and> (of_char c :: nat) \<le> 122)) s"

subsection \<open>Order of the checks\<close>

text \<open>
  The nine invariants, each with the condition under which a session violates it and the
  localisation code of its error. \<open>table_order\<close> is the order of the field table of
  the specification's data model, \<open>invariant_order\<close> the order of its numbered list
  of invariants; \<open>first_violation\<close> is the first invariant of an order that the
  session violates, and \<open>reported\<close> the code that the validator reports.
\<close>

datatype invariant =
  InvId | InvType | InvCreateAt | InvUserId | InvChannelId | InvFilename | InvPath
  | InvFileSize | InvFileOffset

fun violated :: "(string \<Rightarrow> bool) \<Rightarrow> UploadSession \<Rightarrow> invariant \<Rightarrow> bool" where
  "violated V us InvId = (\<not> V (Id_us us))"
| "violated V us InvType = (Type us \<noteq> ''attachment'' \<and> Type us \<noteq> ''import'')"
| "violated V us InvCreateAt = (CreateAt us = 0)"
| "violated V us InvUserId = (\<not> V (UserId us))"
| "violated V us InvChannelId = (Type us = ''attachment'' \<and> \<not> V (ChannelId us))"
| "violated V us InvFilename = (Filename us = '''')"
| "violated V us InvPath = (Path us = '''')"
| "violated V us InvFileSize = (sint (FileSize us) \<le> 0)"
| "violated V us InvFileOffset =
     (sint (FileOffset us) < 0 \<or> sint (FileSize us) < sint (FileOffset us))"

fun error_code :: "invariant \<Rightarrow> string" where
  "error_code InvId = ''model.upload_session.is_valid.id.app_error''"
| "error_code InvType = ''model.upload_session.is_valid.type.app_error''"
| "error_code InvCreateAt = ''model.upload_session.is_valid.create_at.app_error''"
| "error_code InvUserId = ''model.upload_session.is_valid.user_id.app_error''"
| "error_code InvChannelId = ''model.upload_session.is_valid.channel_id.app_error''"
| "error_code InvFilename = ''model.upload_session.is_valid.filename.app_error''"
| "error_code InvPath = ''model.upload_session.is_valid.path.app_error''"
| "error_code InvFileSize = ''model.upload_session.is_valid.file_size.app_error''"
| "error_code InvFileOffset = ''model.upload_session.is_valid.file_offset.app_error''"

definition table_order :: "invariant list" where
  "table_order = [InvId, InvType, InvCreateAt, InvUserId, InvChannelId, InvFilename, InvPath,
     InvFileSize, InvFileOffset]"

definition invariant_order :: "invariant list" where
  "invariant_order = [InvId, InvType, InvUserId, InvChannelId, InvCreateAt, InvFilename,
     InvFileSize, InvFileOffset, InvPath]"

definition first_violation ::
  "invariant list \<Rightarrow> (string \<Rightarrow> bool) \<Rightarrow> UploadSession \<Rightarrow> invariant option" where
  "first_violation order V us = find (violated V us) order"

definition reported :: "(string \<Rightarrow> bool) \<Rightarrow> UploadSession \<Rightarrow> string option" where
  "reported V us = map_option AppErrorId (IsValid V us)"

section \<open>Validation\<close>

lemma UploadType_IsValid_None_iff:
  "UploadType_IsValid t = None \<longleftrightarrow> t = ''attachment'' \<or> t = ''import''"
  by (simp add: UploadType_IsValid_def UploadTypeAttachment_def UploadTypeImport_def)

lemma UploadType_IsValid_Some_iff:
  "UploadType_IsValid t = Some e \<longleftrightarrow>
     t \<noteq> ''attachment'' \<and> t \<noteq> ''import'' \<and> e = Errorf (''invalid UploadType '' @ t)"
  by (auto simp add: UploadType_IsValid_def UploadTypeAttachment_def UploadTypeImport_def)

lemma IsValid_chain:
  "IsValid V us =
     (if violated V us InvId then
        Some (NewAppError ''UploadSession.IsValid'' (error_code InvId) '''' StatusBadRequest)
      else if violated V us InvType then
        Some (NewAppError ''UploadSession.IsValid'' (error_code InvType)
          (''invalid UploadType '' @ Type us) StatusBadRequest)
      else if violated V us InvUserId then
        Some (NewAppError ''UploadSession.IsValid'' (error_code InvUserId)
          (''id='' @ Id_us us) StatusBadRequest)
      else if violated V us InvChannelId then
        Some (NewAppError ''UploadSession.IsValid'' (error_code InvChannelId)
          (''id='' @ Id_us us) StatusBadRequest)
      else if violated V us InvCreateAt then
        Some (NewAppError ''UploadSession.IsValid'' (error_code InvCreateAt)
          (''id='' @ Id_us us) StatusBadRequest)
      else if violated V us InvFilename then
        Some (NewAppError ''UploadSession.IsValid'' (error_code InvFilename)
          (''id='' @ Id_us us) StatusBadRequest)
      else if violated V us InvFileSize then
        Some (NewAppError ''UploadSession.IsValid'' (error_code InvFileSize)
          (''id='' @ Id_us us) StatusBadRequest)
      else if violated V us InvFileOffset then
        Some (NewAppError ''UploadSession.IsValid'' (error_code InvFileOffset)
          (''id='' @ Id_us us) StatusBadRequest)
      else if violated V us InvPath then
        Some (NewAppError ''UploadSession.IsValid'' (error_code InvPath)
          (''id='' @ Id_us us) StatusBadRequest)
      else None)"
proof -
  consider (att) "Type us = ''attachment''" | (imp) "Type us = ''import''"
    | (bad) "Type us \<noteq> ''attachment''" "Type us \<noteq> ''import''"
    by blast
  then show ?thesis
  proof cases
    case att
    then show ?thesis
      by (simp add: IsValid_def UploadType_IsValid_def UploadTypeAttachment_def not_less)
  next
    case imp
    then show ?thesis
      by (simp add: IsValid_def UploadType_IsValid_def UploadTypeAttachment_def
          UploadTypeImport_def not_less)
  next
    case bad
    then show ?thesis
      by (simp add: IsValid_def UploadType_IsValid_def UploadTypeAttachment_def
          UploadTypeImport_def)
  qed
qed

lemma reported_code_order:
  "reported V us = map_option error_code (first_violation invariant_order V us)"
  unfolding reported_def first_violation_def invariant_order_def IsValid_chain
  by (simp add: NewAppError_def)

lemma IsValid_None_iff: "IsValid V us = None \<longleftrightarrow> spec_invariants V us"
  unfolding IsValid_chain spec_invariants_def
  by (simp add: not_le not_less)

lemma sublist_of_suffix: "sublist xs (ps @ xs)"
  by (rule suffix_imp_sublist) (rule suffixI, rule refl)

lemma IsValid_first_violation:
  "IsValid V us =
     map_option (\<lambda>inv. NewAppError ''UploadSession.IsValid'' (error_code inv)
         (if inv = InvId then ''''
          else if inv = InvType then ''invalid UploadType '' @ Type us
          else ''id='' @ Id_us us) StatusBadRequest)
       (first_violation invariant_order V us)"
  unfolding first_violation_def invariant_order_def IsValid_chain
  by simp

subsection \<open>The validator and the nine invariants\<close>

text \<open>
  C1. \<open>IsValid\<close> returns \<open>nil\<close> exactly when the nine invariants of the data
  model hold. In particular a session of type import with an empty ChannelId whose other
  invariants hold is valid: the channel check is skipped.
\<close>

theorem IsValid_iff_invariants:
  "(IsValid V us = None \<longleftrightarrow> spec_invariants V us) \<and>
   (Type us = ''import'' \<and> ChannelId us = '''' \<and> V (Id_us us) \<and> V (UserId us) \<and>
    CreateAt us \<noteq> 0 \<and> Filename us \<noteq> '''' \<and> 0 < sint (FileSize us) \<and>
    0 \<le> sint (FileOffset us) \<and> sint (FileOffset us) \<le> sint (FileSize us) \<and>
    Path us \<noteq> '''' \<longrightarrow> IsValid V us = None)"
  by (simp add: IsValid_None_iff) (simp add: spec_invariants_def)

theorem IsValid_iff_invariants_witness:
  "spec_invariants IsValidId_alnum26
     \<lparr>Id_us = ''w7ybqd5p3jfstmyu8xhkq6ycnr'', Type = ''import'', CreateAt = 1600000000000,
      UserId = ''9bs1jq4yc7nstq8x6ehr5wzi4o'', ChannelId = '''', Filename = ''a.png'',
      Path = ''/tmp/a'', FileSize = 100, FileOffset = 0\<rparr> \<and>
   IsValid IsValidId_alnum26
     \<lparr>Id_us = ''w7ybqd5p3jfstmyu8xhkq6ycnr'', Type = ''import'', CreateAt = 1600000000000,
      UserId = ''9bs1jq4yc7nstq8x6ehr5wzi4o'', ChannelId = '''', Filename = ''a.png'',
      Path = ''/tmp/a'', FileSize = 100, FileOffset = 0\<rparr> = None"
  using IsValid_iff_invariants [of IsValidId_alnum26
     "\<lparr>Id_us = ''w7ybqd5p3jfstmyu8xhkq6ycnr'', Type = ''import'', CreateAt = 1600000000000,
      UserId = ''9bs1jq4yc7nstq8x6ehr5wzi4o'', ChannelId = '''', Filename = ''a.png'',
      Path = ''/tmp/a'', FileSize = 100, FileOffset = 0\<rparr>"]
  by (simp add: IsValidId_alnum26_def spec_invariants_def)

subsection \<open>Which violation is reported\<close>

text \<open>
  C2, as stated, has the validator report the first violation in the order of the field
  table (Id, Type, CreateAt, UserId, ChannelId, Filename, Path, FileSize, FileOffset). A
  session with CreateAt zero and an empty UserId, valid otherwise, is reported for its
  UserId, where the table order asks for CreateAt.
\<close>

theorem reported_table_order_counterexample:
  "reported IsValidId_alnum26
     \<lparr>Id_us = ''w7ybqd5p3jfstmyu8xhkq6ycnr'', Type = ''import'', CreateAt = 0,
      UserId = '''', ChannelId = '''', Filename = ''a.png'', Path = ''/tmp/a'',
      FileSize = 100, FileOffset = 0\<rparr>
     = Some ''model.upload_session.is_valid.user_id.app_error'' \<and>
   map_option error_code (first_violation table_order IsValidId_alnum26
     \<lparr>Id_us = ''w7ybqd5p3jfstmyu8xhkq6ycnr'', Type = ''import'', CreateAt = 0,
      UserId = '''', ChannelId = '''', Filename = ''a.png'', Path = ''/tmp/a'',
      FileSize = 100, FileOffset = 0\<rparr>)
     = Some ''model.upload_session.is_valid.create_at.app_error''"
  by (simp add: reported_def IsValid_chain first_violation_def table_order_def
      IsValidId_alnum26_def NewAppError_def)

text \<open>
  C2, amended. The validator reports one violation, the first in the order of the checks
  of the source, which is the order of the numbered invariants (Id, Type, UserId,
  ChannelId, CreateAt, Filename, FileSize, FileOffset, Path); and the channel error is
  reported only for a session whose Id and Type have passed their checks.
\<close>

theorem reported_first_violation:
  "reported V us = map_option error_code (first_violation invariant_order V us) \<and>
   (reported V us = Some (error_code InvChannelId) \<longrightarrow>
      V (Id_us us) \<and> UploadType_IsValid (Type us) = None \<and> Type us = ''attachment'')"
proof -
  have "reported V us = Some (error_code InvChannelId) \<Longrightarrow>
      V (Id_us us) \<and> Type us = ''attachment''"
    unfolding reported_def IsValid_chain
    by (simp add: NewAppError_def split: if_splits)
  then show ?thesis
    by (auto simp: reported_code_order UploadType_IsValid_None_iff)
qed

theorem reported_first_violation_witness:
  "reported IsValidId_alnum26
     \<lparr>Id_us = ''w7ybqd5p3jfstmyu8xhkq6ycnr'', Type = ''attachment'', CreateAt = 0,
      UserId = ''9bs1jq4yc7nstq8x6ehr5wzi4o'', ChannelId = '''', Filename = '''',
      Path = ''/tmp/a'', FileSize = 100, FileOffset = 0\<rparr>
     = Some (error_code InvChannelId) \<and>
   UploadType_IsValid ''attachment'' = None"
  using reported_first_violation [of IsValidId_alnum26
     "\<lparr>Id_us = ''w7ybqd5p3jfstmyu8xhkq6ycnr'', Type = ''attachment'', CreateAt = 0,
      UserId = ''9bs1jq4yc7nstq8x6ehr5wzi4o'', ChannelId = '''', Filename = '''',
      Path = ''/tmp/a'', FileSize = 100, FileOffset = 0\<rparr>"]
  by (simp add: first_violation_def invariant_order_def IsValidId_alnum26_def)

text \<open>
  C3. A session that passes the checks before the offset check (Id, Type, UserId,
  ChannelId, CreateAt, Filename, FileSize) and whose FileOffset is negative or greater than
  FileSize gets the file-offset error and no other; both directions give the same error.
\<close>

theorem file_offset_out_of_range:
  assumes "V (Id_us us)" and "Type us = ''attachment'' \<or> Type us = ''import''"
    and "V (UserId us)" and "Type us = ''attachment'' \<longrightarrow> V (ChannelId us)"
    and "CreateAt us \<noteq> 0" and "Filename us \<noteq> ''''" and "0 < sint (FileSize us)"
    and "sint (FileOffset us) < 0 \<or> sint (FileOffset us) > sint (FileSize us)"
  shows "IsValid V us =
     Some (NewAppError ''UploadSession.IsValid''
       ''model.upload_session.is_valid.file_offset.app_error'' (''id='' @ Id_us us)
       StatusBadRequest)"
  using assms unfolding IsValid_chain by (simp add: not_le) blast

theorem file_offset_out_of_range_witness:
  "IsValid IsValidId_alnum26
     \<lparr>Id_us = ''w7ybqd5p3jfstmyu8xhkq6ycnr'', Type = ''attachment'',
      CreateAt = 1600000000000, UserId = ''9bs1jq4yc7nstq8x6ehr5wzi4o'',
      ChannelId = ''k3x8w1zq5tbn7pfe4yd6r9hcao'', Filename = ''a.png'', Path = '''',
      FileSize = 100, FileOffset = 101\<rparr> =
     Some (NewAppError ''UploadSession.IsValid''
       ''model.upload_session.is_valid.file_offset.app_error''
       ''id=w7ybqd5p3jfstmyu8xhkq6ycnr'' StatusBadRequest) \<and>
   IsValid IsValidId_alnum26
     \<lparr>Id_us = ''w7ybqd5p3jfstmyu8xhkq6ycnr'', Type = ''import'',
      CreateAt = 1600000000000, UserId = ''9bs1jq4yc7nstq8x6ehr5wzi4o'',
      ChannelId = '''', Filename = ''a.png'', Path = ''/tmp/a'',
      FileSize = 100, FileOffset = - 1\<rparr> =
     Some (NewAppError ''UploadSession.IsValid''
       ''model.upload_session.is_valid.file_offset.app_error''
       ''id=w7ybqd5p3jfstmyu8xhkq6ycnr'' StatusBadRequest)"
  using file_offset_out_of_range [of IsValidId_alnum26
     "\<lparr>Id_us = ''w7ybqd5p3jfstmyu8xhkq6ycnr'', Type = ''attachment'',
      CreateAt = 1600000000000, UserId = ''9bs1jq4yc7nstq8x6ehr5wzi4o'',
      ChannelId = ''k3x8w1zq5tbn7pfe4yd6r9hcao'', Filename = ''a.png'', Path = '''',
      FileSize = 100, FileOffset = 101\<rparr>"]
    file_offset_out_of_range [of IsValidId_alnum26
     "\<lparr>Id_us = ''w7ybqd5p3jfstmyu8xhkq6ycnr'', Type = ''import'',
      CreateAt = 1600000000000, UserId = ''9bs1jq4yc7nstq8x6ehr5wzi4o'',
      ChannelId = '''', Filename = ''a.png'', Path = ''/tmp/a'',
      FileSize = 100, FileOffset = - 1\<rparr>"]
  by (simp add: IsValidId_alnum26_def)

text \<open>
  C9, as stated, has the detail of every failure contain the session's Id when the Id is
  available. For a session with a well-formed Id and an unknown Type the detail is the
  message of the Type error, which does not contain the Id.
\<close>

theorem type_failure_detail_counterexample:
  "IsValid IsValidId_alnum26
     \<lparr>Id_us = ''w7ybqd5p3jfstmyu8xhkq6ycnr'', Type = ''bogus'', CreateAt = 1600000000000,
      UserId = ''9bs1jq4yc7nstq8x6ehr5wzi4o'', ChannelId = '''', Filename = ''a.png'',
      Path = ''/tmp/a'', FileSize = 100, FileOffset = 0\<rparr>
     = Some \<lparr>Where = ''UploadSession.IsValid'',
         AppErrorId = ''model.upload_session.is_valid.type.app_error'',
         DetailedError = ''invalid UploadType bogus'', StatusCode = 400\<rparr> \<and>
   \<not> sublist ''w7ybqd5p3jfstmyu8xhkq6ycnr'' ''invalid UploadType bogus''"
proof -
  have "\<not> sublist ''w7ybqd5p3jfstmyu8xhkq6ycnr'' ''invalid UploadType bogus''"
    by code_simp
  then show ?thesis
    by (simp add: IsValid_def UploadType_IsValid_def UploadTypeAttachment_def
        UploadTypeImport_def IsValidId_alnum26_def NewAppError_def StatusBadRequest_def)
qed

text \<open>
  C9, amended. Every failure names one violated invariant by its code, the operation
  \<open>UploadSession.IsValid\<close> and the status 400. Its detail is \<open>id=\<close> followed by
  the session's Id, except for the Id failure (empty detail) and the Type failure (the
  message of the Type error); so the detail contains the Id for the seven other checks.
\<close>

theorem failure_carries:
  assumes "IsValid V us = Some e"
  shows "\<exists>inv. violated V us inv \<and> AppErrorId e = error_code inv \<and>
     Where e = ''UploadSession.IsValid'' \<and> StatusCode e = StatusBadRequest \<and>
     DetailedError e =
       (if inv = InvId then ''''
        else if inv = InvType then ''invalid UploadType '' @ Type us
        else ''id='' @ Id_us us) \<and>
     (inv \<noteq> InvId \<and> inv \<noteq> InvType \<longrightarrow> sublist (Id_us us) (DetailedError e))"
proof -
  from assms obtain inv where f: "first_violation invariant_order V us = Some inv"
    and e: "e = NewAppError ''UploadSession.IsValid'' (error_code inv)
         (if inv = InvId then ''''
          else if inv = InvType then ''invalid UploadType '' @ Type us
          else ''id='' @ Id_us us) StatusBadRequest"
    unfolding IsValid_first_violation by blast
  from f have v: "violated V us inv"
    unfolding first_violation_def by (auto simp: find_Some_iff)
  have d: "inv \<noteq> InvId \<and> inv \<noteq> InvType \<longrightarrow> sublist (Id_us us) (DetailedError e)"
    unfolding e NewAppError_def
    using sublist_of_suffix [of "Id_us us" "''id=''"] by simp
  have "AppErrorId e = error_code inv" "Where e = ''UploadSession.IsValid''"
    "StatusCode e = StatusBadRequest"
    "DetailedError e =
       (if inv = InvId then ''''
        else if inv = InvType then ''invalid UploadType '' @ Type us
        else ''id='' @ Id_us us)"
    unfolding e NewAppError_def by simp_all
  with v d show ?thesis by blast
qed

theorem failure_carries_witness:
  "IsValid IsValidId_alnum26
     \<lparr>Id_us = ''w7ybqd5p3jfstmyu8xhkq6ycnr'', Type = ''attachment'',
      CreateAt = 1600000000000, UserId = ''9bs1jq4yc7nstq8x6ehr5wzi4o'',
      ChannelId = '''', Filename = ''a.png'', Path = ''/tmp/a'',
      FileSize = 100, FileOffset = 0\<rparr> =
     Some \<lparr>Where = ''UploadSession.IsValid'',
       AppErrorId = ''model.upload_session.is_valid.channel_id.app_error'',
       DetailedError = ''id=w7ybqd5p3jfstmyu8xhkq6ycnr'', StatusCode = 400\<rparr> \<and>
   (\<exists>inv. violated IsValidId_alnum26
     \<lparr>Id_us = ''w7ybqd5p3jfstmyu8xhkq6ycnr'', Type = ''attachment'',
      CreateAt = 1600000000000, UserId = ''9bs1jq4yc7nstq8x6ehr5wzi4o'',
      ChannelId = '''', Filename = ''a.png'', Path = ''/tmp/a'',
      FileSize = 100, FileOffset = 0\<rparr> inv \<and>
     ''model.upload_session.is_valid.channel_id.app_error'' = error_code inv)"
proof -
  have v: "IsValid IsValidId_alnum26
     \<lparr>Id_us = ''w7ybqd5p3jfstmyu8xhkq6ycnr'', Type = ''attachment'',
      CreateAt = 1600000000000, UserId = ''9bs1jq4yc7nstq8x6ehr5wzi4o'',
      ChannelId = '''', Filename = ''a.png'', Path = ''/tmp/a'',
      FileSize = 100, FileOffset = 0\<rparr> =
     Some \<lparr>Where = ''UploadSession.IsValid'',
       AppErrorId = ''model.upload_session.is_valid.channel_id.app_error'',
       DetailedError = ''id=w7ybqd5p3jfstmyu8xhkq6ycnr'', StatusCode = 400\<rparr>"
    by (simp add: IsValid_def UploadType_IsValid_def UploadTypeAttachment_def
        UploadTypeImport_def IsValidId_alnum26_def NewAppError_def StatusBadRequest_def)
  from failure_carries [OF v] obtain inv where "violated IsValidId_alnum26
     \<lparr>Id_us = ''w7ybqd5p3jfstmyu8xhkq6ycnr'', Type = ''attachment'',
      CreateAt = 1600000000000, UserId = ''9bs1jq4yc7nstq8x6ehr5wzi4o'',
      ChannelId = '''', Filename = ''a.png'', Path = ''/tmp/a'',
      FileSize = 100, FileOffset = 0\<rparr> inv"
    and "''model.upload_session.is_valid.channel_id.app_error'' = error_code inv"
    by auto
  with v show ?thesis by blast
qed

section \<open>UploadType.IsValid\<close>

text \<open>
  C8. \<open>UploadType.IsValid\<close> depends on the type value alone; it returns \<open>nil\<close>
  exactly for \<open>attachment\<close> and \<open>import\<close>, and for every other value an error whose
  message ends with that value.
\<close>

theorem UploadType_IsValid_spec:
  "(UploadType_IsValid t = None \<longleftrightarrow> t = ''attachment'' \<or> t = ''import'') \<and>
   (t \<noteq> ''attachment'' \<and> t \<noteq> ''import'' \<longrightarrow>
      UploadType_IsValid t = Some (Errorf (''invalid UploadType '' @ t)) \<and>
      sublist t (Error (Errorf (''invalid UploadType '' @ t))))"
  using sublist_of_suffix [of t "''invalid UploadType ''"]
  by (simp add: UploadType_IsValid_None_iff UploadType_IsValid_Some_iff)

theorem UploadType_IsValid_spec_witness:
  "UploadType_IsValid ''bogus'' = Some (Errorf ''invalid UploadType bogus'') \<and>
   sublist ''bogus'' ''invalid UploadType bogus'' \<and>
   UploadType_IsValid ''import'' = None"
  using UploadType_IsValid_spec [of "''bogus''"] UploadType_IsValid_spec [of "''import''"]
  by simp

section \<open>PreSave\<close>

text \<open>
  C4. \<open>PreSave\<close> keeps a non-empty Id and a nonzero CreateAt, and fills an empty Id
  with the generated identifier and a zero CreateAt with the current time. When the
  generator returns a non-empty identifier and the clock a nonzero time, the session has a
  non-empty Id and a nonzero CreateAt afterwards, and a second \<open>PreSave\<close>, whatever the
  generator and the clock return then, changes nothing.
\<close>

theorem PreSave_fills_once:
  "(Id_us us \<noteq> '''' \<longrightarrow> Id_us (PreSave new_id millis us) = Id_us us) \<and>
   (Id_us us = '''' \<longrightarrow> Id_us (PreSave new_id millis us) = new_id) \<and>
   (CreateAt us \<noteq> 0 \<longrightarrow> CreateAt (PreSave new_id millis us) = CreateAt us) \<and>
   (CreateAt us = 0 \<longrightarrow> CreateAt (PreSave new_id millis us) = millis) \<and>
   (new_id \<noteq> '''' \<and> millis \<noteq> 0 \<longrightarrow>
      Id_us (PreSave new_id millis us) \<noteq> '''' \<and>
      CreateAt (PreSave new_id millis us) \<noteq> 0 \<and>
      PreSave new_id' millis' (PreSave new_id millis us) = PreSave new_id millis us)"
  by (simp add: PreSave_def Let_def)

theorem PreSave_fills_once_witness:
  "PreSave ''w7ybqd5p3jfstmyu8xhkq6ycnr'' 1600000000000
     \<lparr>Id_us = '''', Type = ''import'', CreateAt = 0, UserId = ''9bs1jq4yc7nstq8x6ehr5wzi4o'',
      ChannelId = '''', Filename = ''a.png'', Path = ''/tmp/a'', FileSize = 100,
      FileOffset = 0\<rparr> =
     \<lparr>Id_us = ''w7ybqd5p3jfstmyu8xhkq6ycnr'', Type = ''import'', CreateAt = 1600000000000,
      UserId = ''9bs1jq4yc7nstq8x6ehr5wzi4o'', ChannelId = '''', Filename = ''a.png'',
      Path = ''/tmp/a'', FileSize = 100, FileOffset = 0\<rparr> \<and>
   PreSave ''k3x8w1zq5tbn7pfe4yd6r9hcao'' 1600000000777
     (PreSave ''w7ybqd5p3jfstmyu8xhkq6ycnr'' 1600000000000
       \<lparr>Id_us = '''', Type = ''import'', CreateAt = 0,
        UserId = ''9bs1jq4yc7nstq8x6ehr5wzi4o'', ChannelId = '''', Filename = ''a.png'',
        Path = ''/tmp/a'', FileSize = 100, FileOffset = 0\<rparr>) =
     \<lparr>Id_us = ''w7ybqd5p3jfstmyu8xhkq6ycnr'', Type = ''import'', CreateAt = 1600000000000,
      UserId = ''9bs1jq4yc7nstq8x6ehr5wzi4o'', ChannelId = '''', Filename = ''a.png'',
      Path = ''/tmp/a'', FileSize = 100, FileOffset = 0\<rparr>"
  using PreSave_fills_once [of
     "\<lparr>Id_us = '''', Type = ''import'', CreateAt = 0,
      UserId = ''9bs1jq4yc7nstq8x6ehr5wzi4o'', ChannelId = '''', Filename = ''a.png'',
      Path = ''/tmp/a'', FileSize = 100, FileOffset = 0\<rparr>"
     "''w7ybqd5p3jfstmyu8xhkq6ycnr''" 1600000000000
     "''k3x8w1zq5tbn7pfe4yd6r9hcao''" 1600000000777]
  by (simp add: PreSave_def Let_def)

text \<open>
  C10. \<open>PreSave\<close> changes no field other than Id and CreateAt.
\<close>

theorem PreSave_frame:
  "Type (PreSave new_id millis us) = Type us \<and>
   UserId (PreSave new_id millis us) = UserId us \<and>
   ChannelId (PreSave new_id millis us) = ChannelId us \<and>
   Filename (PreSave new_id millis us) = Filename us \<and>
   Path (PreSave new_id millis us) = Path us \<and>
   FileSize (PreSave new_id millis us) = FileSize us \<and>
   FileOffset (PreSave new_id millis us) = FileOffset us"
  by (simp add: PreSave_def Let_def)

end
